theory Spec2Isabelle
  imports Complex_Main "HOL-Library.Char_ord" "HOL-Library.List_Lexorder"
begin

section \<open>Conventions of the embedding\<close>

text \<open>
  The development embeds the storage core of the repository: the utility functions of
  \<^verbatim>\<open>packages/core/src/utils.ts\<close>, the SQLite adapter (\<^verbatim>\<open>adapters/sqlite.ts\<close>; the Turso
  adapter is the same text over another driver), the Redis adapter (\<^verbatim>\<open>adapters/redis.ts\<close>)
  and the storage service.

  \<^item> A JavaScript string is modelled by the bytes of its UTF-8 encoding, a
    \<^typ>\<open>string\<close>; strings are taken to be well formed. The order \<open><\<close> on strings is the
    lexicographic order on bytes, the order of the \<^verbatim>\<open>BINARY\<close> collation of SQLite.
  \<^item> A timestamp is the text that \<^verbatim>\<open>toISOString\<close> writes for an instant. It is modelled by
    the instant, in milliseconds since the epoch (\<^typ>\<open>nat\<close>), and two timestamps are
    compared the way their texts compare (\<open>iso_le\<close>, \<open>iso_less\<close>). Each operation reads the
    clock once: the argument \<open>now\<close>, a valid date.
  \<^item> A JSON value is modelled by its serialised text, so that \<^verbatim>\<open>serializeJson\<close> and
    \<^verbatim>\<open>parseJson\<close> are identities.
  \<^item> An exception is a value of type \<open>error\<close>; an operation on a backend returns its
    outcome together with the backend's new state.
\<close>

text \<open>The two error classes of \<^verbatim>\<open>errors.ts\<close> that the core raises, and the \<^verbatim>\<open>RangeError\<close> of
  the runtime, which \<^verbatim>\<open>toISOString\<close> raises on an invalid date.\<close>

datatype error = ValidationError | PreconditionFailedError | RangeError

section \<open>Utility layer\<close>

subsection \<open>Numbers\<close>

text \<open>A JavaScript number: NaN, an infinity, or a finite double, held as the rational
  number it denotes.\<close>

datatype jsnum = NaN | PosInf | NegInf | Fin rat

text \<open>\<^verbatim>\<open>!limit\<close> for \<^verbatim>\<open>limit: number | undefined\<close>: undefined, zero and NaN are falsy.\<close>

fun falsy_num :: "jsnum option \<Rightarrow> bool" where
  "falsy_num None = True"
| "falsy_num (Some NaN) = True"
| "falsy_num (Some (Fin r)) = (r = 0)"
| "falsy_num (Some _) = False"

fun isFinite :: "jsnum option \<Rightarrow> bool" where
  "isFinite (Some (Fin r)) = True"
| "isFinite _ = False"

text \<open>\<^verbatim>\<open>Math.trunc\<close>: rounding towards zero.\<close>

definition trunc :: "rat \<Rightarrow> int" where
  "trunc r = (if 0 \<le> r then \<lfloor>r\<rfloor> else \<lceil>r\<rceil>)"

fun clampLimit :: "jsnum option \<Rightarrow> int \<Rightarrow> int \<Rightarrow> int" where
  "clampLimit limit mx fallback =
     (if falsy_num limit \<or> \<not> isFinite limit then fallback
      else (case limit of
              Some (Fin r) \<Rightarrow> (let sanitized = max 1 (trunc r) in min sanitized mx)
            | _ \<Rightarrow> fallback))"

text \<open>\<^verbatim>\<open>Number.isInteger\<close>\<close>

definition isInteger :: "jsnum \<Rightarrow> bool" where
  "isInteger x = (case x of Fin r \<Rightarrow> of_int \<lfloor>r\<rfloor> = r | _ \<Rightarrow> False)"

text \<open>
  An integer as a double: the integers below \<open>2 ^ 53\<close> are doubles; a larger one is rounded
  to 53 significant bits, to the nearest and, half way, to the even one.
\<close>

fun bitlength :: "nat \<Rightarrow> nat" where
  "bitlength n = (if n = 0 then 0 else Suc (bitlength (n div 2)))"

declare bitlength.simps [simp del]

definition round53 :: "nat \<Rightarrow> nat" where
  "round53 n =
     (if n < 9007199254740992 then n
      else (let e = bitlength n - 53; q = n div 2 ^ e; r = n mod 2 ^ e; half = 2 ^ (e - 1)
            in (if half < r \<or> (r = half \<and> odd q) then q + 1 else q) * 2 ^ e))"

definition round_int :: "int \<Rightarrow> int" where
  "round_int i = (if i < 0 then - int (round53 (nat (- i))) else int (round53 (nat i)))"

subsection \<open>Expiry\<close>

text \<open>
  \<^verbatim>\<open>Date.prototype.toISOString\<close> writes an instant of the years 0 to 9999 as
  \<^verbatim>\<open>YYYY-MM-DDTHH:mm:ss.sssZ\<close> and a later one as \<^verbatim>\<open>+YYYYYY-MM-DDTHH:mm:ss.sssZ\<close>; it raises a
  \<^verbatim>\<open>RangeError\<close> on an invalid date, which is what \<^verbatim>\<open>new Date(t)\<close> is for \<open>t\<close> beyond
  8.64e15 ms. The first instant of the year 10000 is \<open>year_10000\<close>. Two texts of the same
  form compare as their instants do, and a text that starts with \<open>+\<close> comes before every
  text that starts with a digit.
\<close>

definition year_10000 :: nat where
  "year_10000 = 253402300800000"

definition max_time :: nat where
  "max_time = 8640000000000000"

definition iso_le :: "nat \<Rightarrow> nat \<Rightarrow> bool" where
  "iso_le a b = (if (a < year_10000) = (b < year_10000) then a \<le> b else year_10000 \<le> a)"

definition iso_less :: "nat \<Rightarrow> nat \<Rightarrow> bool" where
  "iso_less a b = (if (a < year_10000) = (b < year_10000) then a < b else year_10000 \<le> a)"

text \<open>\<^verbatim>\<open>expiresAt <= now.toISOString()\<close>, a comparison of strings.\<close>

definition isExpired :: "nat option \<Rightarrow> nat \<Rightarrow> bool" where
  "isExpired expiresAt now = (case expiresAt of None \<Rightarrow> False | Some e \<Rightarrow> iso_le e now)"

subsection \<open>Strings\<close>

text \<open>
  The white space and the line terminators of ECMAScript, which \<^verbatim>\<open>trim\<close> and \<^verbatim>\<open>parseInt\<close>
  skip, each by the bytes of its encoding: TAB, LF, VT, FF, CR, SPACE, U+00A0, U+1680,
  U+2000 to U+200A, U+2028, U+2029, U+202F, U+205F, U+3000 and U+FEFF.
\<close>

definition white_space :: "nat list list" where
  "white_space =
     [[0x09], [0x0A], [0x0B], [0x0C], [0x0D], [0x20], [0xC2, 0xA0], [0xE1, 0x9A, 0x80],
      [0xE2, 0x80, 0x80], [0xE2, 0x80, 0x81], [0xE2, 0x80, 0x82], [0xE2, 0x80, 0x83],
      [0xE2, 0x80, 0x84], [0xE2, 0x80, 0x85], [0xE2, 0x80, 0x86], [0xE2, 0x80, 0x87],
      [0xE2, 0x80, 0x88], [0xE2, 0x80, 0x89], [0xE2, 0x80, 0x8A], [0xE2, 0x80, 0xA8],
      [0xE2, 0x80, 0xA9], [0xE2, 0x80, 0xAF], [0xE2, 0x81, 0x9F], [0xE3, 0x80, 0x80],
      [0xEF, 0xBB, 0xBF]]"

text \<open>The length in bytes of the white-space character that a string starts with, or
  ends with; 0 when there is none.\<close>

definition ws_length :: "string \<Rightarrow> nat" where
  "ws_length s =
     (case List.find (\<lambda>w. take (length w) (map of_char s) = w) white_space of
        None \<Rightarrow> 0 | Some w \<Rightarrow> length w)"

definition ws_length_end :: "string \<Rightarrow> nat" where
  "ws_length_end s =
     (case List.find (\<lambda>w. length w \<le> length s \<and> drop (length s - length w) (map of_char s) = w)
             white_space of
        None \<Rightarrow> 0 | Some w \<Rightarrow> length w)"

fun trimStart :: "string \<Rightarrow> string" where
  "trimStart [] = []"
| "trimStart (c # cs) =
     (if ws_length (c # cs) = 0 then c # cs else trimStart (drop (ws_length (c # cs) - 1) cs))"

text \<open>\<^verbatim>\<open>trimEnd\<close>, on the reversed string.\<close>

fun trimEnd_rev :: "string \<Rightarrow> string" where
  "trimEnd_rev [] = []"
| "trimEnd_rev (c # cs) =
     (if ws_length_end (rev (c # cs)) = 0 then c # cs
      else trimEnd_rev (drop (ws_length_end (rev (c # cs)) - 1) cs))"

definition trim :: "string \<Rightarrow> string" where
  "trim s = rev (trimEnd_rev (rev (trimStart s)))"

text \<open>\<^verbatim>\<open>s.length\<close> counts UTF-16 code units: one for each character of one to three bytes,
  two for each character of four bytes.\<close>

definition is_cont :: "char \<Rightarrow> bool" where
  "is_cont c = (128 \<le> (of_char c :: nat) \<and> (of_char c :: nat) < 192)"

definition utf16_length :: "string \<Rightarrow> nat" where
  "utf16_length s =
     length (filter (\<lambda>c. \<not> is_cont c) s) + length (filter (\<lambda>c. 240 \<le> (of_char c :: nat)) s)"

subsection \<open>If-Match parsing\<close>

definition is_digit :: "char \<Rightarrow> bool" where
  "is_digit c = (48 \<le> (of_char c :: nat) \<and> (of_char c :: nat) \<le> 57)"

definition digit_val :: "char \<Rightarrow> nat" where
  "digit_val c = of_char c - 48"

definition digits_value :: "string \<Rightarrow> nat" where
  "digits_value ds = foldl (\<lambda>acc c. acc * 10 + digit_val c) 0 ds"

text \<open>
  \<^verbatim>\<open>Number.parseInt(s, 10)\<close>: leading white space is skipped, one sign is read, then the
  longest run of decimal digits; what follows the digits is ignored. Without a digit the
  result is NaN. The value of the digits is rounded to a double; from
  \<open>2 ^ 1024\<close> on that is an infinity.
\<close>

definition parseInt :: "string \<Rightarrow> jsnum" where
  "parseInt s =
     (let s1 = trimStart s;
          neg = (s1 \<noteq> [] \<and> hd s1 = CHR ''-'');
          s2 = (if s1 \<noteq> [] \<and> (hd s1 = CHR ''-'' \<or> hd s1 = CHR ''+'') then tl s1 else s1);
          ds = takeWhile is_digit s2
      in if ds = [] then NaN
         else (let m = round53 (digits_value ds)
               in if m < 2 ^ 1024
                  then Fin (if neg then - of_nat m else of_nat m)
                  else if neg then NegInf else PosInf))"

text \<open>\<^verbatim>\<open>trimmed.startsWith('"') && trimmed.endsWith('"') ? trimmed.slice(1, -1) : trimmed\<close>\<close>

definition strip_quotes :: "string \<Rightarrow> string" where
  "strip_quotes trimmed =
     (if trimmed \<noteq> [] \<and> hd trimmed = CHR 0x22 \<and> last trimmed = CHR 0x22
      then butlast (tl trimmed) else trimmed)"

text \<open>The result, when it is not \<^verbatim>\<open>null\<close>, is a positive integer.\<close>

definition normalizeIfMatch :: "string option \<Rightarrow> int option" where
  "normalizeIfMatch ifMatch =
     (case ifMatch of
        None \<Rightarrow> None
      | Some s \<Rightarrow>
          if s = [] then None
          else (case parseInt (strip_quotes (trim s)) of
                  Fin parsed \<Rightarrow> if parsed \<le> 0 then None else Some \<lfloor>parsed\<rfloor>
                | _ \<Rightarrow> None))"

subsection \<open>Numbers as strings\<close>

text \<open>
  \<^verbatim>\<open>String(x)\<close> and the conversion in a template literal (\<^verbatim>\<open>Number::toString\<close> of
  ECMAScript). The digits are those of the decimal with the fewest significant digits
  among the decimals that round to \<open>x\<close>, the nearest to \<open>x\<close> among these, and the even one
  of two that are as near. With \<open>n\<close> the position of the decimal point, they are written
  in full for \<open>-6 < n \<le> 21\<close> and with an exponent otherwise.
\<close>

fun dec_nat :: "nat \<Rightarrow> string" where
  "dec_nat n = (if n < 10 then [char_of (48 + n)] else dec_nat (n div 10) @ [char_of (48 + n mod 10)])"

declare dec_nat.simps [simp del]

definition pow2 :: "int \<Rightarrow> rat" where
  "pow2 e = (if 0 \<le> e then 2 ^ nat e else 1 / 2 ^ nat (- e))"

definition pow10 :: "int \<Rightarrow> rat" where
  "pow10 e = (if 0 \<le> e then 10 ^ nat e else 1 / 10 ^ nat (- e))"

text \<open>For a positive rational: the exponent \<open>e\<close> with \<open>2 ^ e \<le> x < 2 ^ (e + 1)\<close>.\<close>

definition ilog2 :: "rat \<Rightarrow> int" where
  "ilog2 x =
     (let e = int (bitlength (nat (fst (quotient_of x)))) - int (bitlength (nat (snd (quotient_of x))))
      in if pow2 e \<le> x then e else e - 1)"

text \<open>The double nearest to a positive rational, half way the one with the even
  significand; the subnormal doubles are multiples of \<open>2 ^ -1074\<close>.\<close>

definition nearest_double :: "rat \<Rightarrow> rat" where
  "nearest_double x =
     (let u = pow2 (max (ilog2 x) (- 1022) - 52);
          q = \<lfloor>x / u\<rfloor>;
          f = x / u - of_int q
      in of_int (if 1 / 2 < f \<or> (f = 1 / 2 \<and> odd q) then q + 1 else q) * u)"

text \<open>For a positive rational: the \<open>n\<close> with \<open>10 ^ (n - 1) \<le> x < 10 ^ n\<close>; below 1 it is
  found by counting the multiplications by ten that reach 1.\<close>

fun tens_to_one :: "nat \<Rightarrow> rat \<Rightarrow> nat" where
  "tens_to_one 0 x = 0"
| "tens_to_one (Suc fuel) x = (if 1 \<le> x then 0 else Suc (tens_to_one fuel (x * 10)))"

definition point_of :: "rat \<Rightarrow> int" where
  "point_of x =
     (if 1 \<le> x then int (length (dec_nat (nat \<lfloor>x\<rfloor>))) else 1 - int (tens_to_one 400 x))"

text \<open>The best decimal \<open>s * 10 ^ p\<close> with the given exponent \<open>p\<close> that rounds to \<open>x\<close>, if
  there is one: \<open>s\<close> is one of the two integers around \<open>x / 10 ^ p\<close>.\<close>

definition best_at :: "rat \<Rightarrow> int \<Rightarrow> int option" where
  "best_at x p =
     (let lo = \<lfloor>x / pow10 p\<rfloor>;
          hi = lo + 1;
          ok_lo = (0 < lo \<and> nearest_double (of_int lo * pow10 p) = x);
          ok_hi = (nearest_double (of_int hi * pow10 p) = x);
          d_lo = x - of_int lo * pow10 p;
          d_hi = of_int hi * pow10 p - x
      in if ok_lo \<and> ok_hi
         then Some (if d_lo < d_hi then lo else if d_hi < d_lo then hi
                    else if even lo then lo else hi)
         else if ok_lo then Some lo
         else if ok_hi then Some hi
         else None)"

text \<open>The digits and the position of the decimal point for a positive double: one to
  seventeen significant digits are tried in turn.\<close>

definition shortest :: "rat \<Rightarrow> string \<times> int" where
  "shortest x =
     (let n = point_of x;
          found = List.map_filter (\<lambda>k. map_option (\<lambda>s. (s, n - int k)) (best_at x (n - int k)))
                    [1..<18];
          (s, p) = (case found of sp # _ \<Rightarrow> sp | [] \<Rightarrow> (\<lfloor>x / pow10 (n - 17)\<rfloor>, n - 17));
          ds = dec_nat (nat s)
      in (rev (dropWhile (\<lambda>c. c = CHR ''0'') (rev ds)), int (length ds) + p))"

definition format_digits :: "string \<Rightarrow> int \<Rightarrow> string" where
  "format_digits ds n =
     (let k = int (length ds) in
      if k \<le> n \<and> n \<le> 21 then ds @ replicate (nat (n - k)) (CHR ''0'')
      else if 0 < n \<and> n \<le> 21 then take (nat n) ds @ ''.'' @ drop (nat n) ds
      else if - 6 < n \<and> n \<le> 0 then ''0.'' @ replicate (nat (- n)) (CHR ''0'') @ ds
      else (if k = 1 then ds else hd ds # ''.'' @ tl ds) @ ''e'' @
           (if 0 \<le> n - 1 then ''+'' else ''-'') @ dec_nat (nat \<bar>n - 1\<bar>))"

text \<open>An integer below \<open>2 ^ 53\<close> is written with all its digits, which is what the rule
  gives for it.\<close>

definition String_pos :: "rat \<Rightarrow> string" where
  "String_pos x =
     (if of_int \<lfloor>x\<rfloor> = x \<and> x < 9007199254740992 then dec_nat (nat \<lfloor>x\<rfloor>)
      else (case shortest x of (ds, n) \<Rightarrow> format_digits ds n))"

definition String :: "jsnum \<Rightarrow> string" where
  "String x =
     (case x of
        NaN \<Rightarrow> ''NaN''
      | PosInf \<Rightarrow> ''Infinity''
      | NegInf \<Rightarrow> ''-Infinity''
      | Fin r \<Rightarrow> if r = 0 then ''0'' else if r < 0 then CHR ''-'' # String_pos (- r)
                 else String_pos r)"

subsection \<open>ETags\<close>

text \<open>\<^verbatim>\<open>`"${version}"`\<close>\<close>

definition etagFromVersion :: "int \<Rightarrow> string" where
  "etagFromVersion version = [CHR 0x22] @ String (Fin (of_int version)) @ [CHR 0x22]"

subsection \<open>Cursors\<close>

text \<open>
  \<^verbatim>\<open>Buffer.from(key, 'utf8').toString('base64url')\<close>: base64 over the URL-safe alphabet,
  without padding. Decoding (\<^verbatim>\<open>Buffer.from(cursor, 'base64url')\<close>) accepts both alphabets,
  skips characters outside them and stops at the first \<open>=\<close>.
\<close>

definition b64url_alphabet :: string where
  "b64url_alphabet = ''ABCDEFGHIJKLMNOPQRSTUVWXYZabcdefghijklmnopqrstuvwxyz0123456789-_''"

definition enc6 :: "nat \<Rightarrow> char" where
  "enc6 n = b64url_alphabet ! n"

fun index_of :: "char \<Rightarrow> string \<Rightarrow> nat \<Rightarrow> nat option" where
  "index_of c [] i = None"
| "index_of c (x # xs) i = (if c = x then Some i else index_of c xs (Suc i))"

definition dec6 :: "char \<Rightarrow> nat option" where
  "dec6 c = (if c = CHR ''+'' then Some 62 else if c = CHR ''/'' then Some 63
             else index_of c b64url_alphabet 0)"

text \<open>Three bytes make four groups of six bits; one or two bytes left over make two or
  three groups.\<close>

fun sextets :: "nat list \<Rightarrow> nat list" where
  "sextets (a # b # c # rest) =
     [a div 4, (a mod 4) * 16 + b div 16, (b mod 16) * 4 + c div 64, c mod 64] @ sextets rest"
| "sextets [a, b] = [a div 4, (a mod 4) * 16 + b div 16, (b mod 16) * 4]"
| "sextets [a] = [a div 4, (a mod 4) * 16]"
| "sextets [] = []"

definition encode_bytes :: "nat list \<Rightarrow> string" where
  "encode_bytes bs = map enc6 (sextets bs)"

fun decode_sextets :: "nat list \<Rightarrow> nat list" where
  "decode_sextets (w # x # y # z # rest) =
     [w * 4 + x div 16, (x mod 16) * 16 + y div 4, (y mod 4) * 64 + z] @ decode_sextets rest"
| "decode_sextets [w, x, y] = [w * 4 + x div 16, (x mod 16) * 16 + y div 4]"
| "decode_sextets [w, x] = [w * 4 + x div 16]"
| "decode_sextets _ = []"

definition encodeCursor :: "string \<Rightarrow> string" where
  "encodeCursor k = encode_bytes (map of_char k)"

definition base64url_decode :: "string \<Rightarrow> string" where
  "base64url_decode s =
     map char_of (decode_sextets (List.map_filter dec6 (takeWhile (\<lambda>c. c \<noteq> CHR ''='') s)))"

definition decodeCursor :: "string option \<Rightarrow> string option" where
  "decodeCursor cursor =
     (case cursor of None \<Rightarrow> None
      | Some c \<Rightarrow> if c = [] then None else Some (base64url_decode c))"

section \<open>Types\<close>

record StorageScope =
  tenantId :: string
  namespace :: string
  userId :: string

record StoredItem =
  key :: string
  val :: string
  version :: int
  etag :: string
  createdAt :: nat
  updatedAt :: nat
  expiresAt :: "nat option"

record ListResult =
  items :: "StoredItem list"
  nextCursor :: "string option"

text \<open>
  An entry of a batch as the service hands it to an adapter, its time to live and its
  version checked; and an entry as the caller gives it to the service, where the two
  are any numbers.
\<close>

record BatchPutEntry =
  entry_key :: string
  entry_value :: string
  entry_ttlSeconds :: "nat option"
  entry_ifMatchVersion :: "int option"


text \<open>
  The object that \<^verbatim>\<open>result[key] = value\<close> builds from \<^verbatim>\<open>{}\<close>, one assignment after the other:
  a later assignment to a key replaces the earlier one, and an assignment to \<^verbatim>\<open>__proto__\<close>
  sets the prototype and leaves no property.
\<close>

definition record_of :: "(string \<times> 'a) list \<Rightarrow> string \<rightharpoonup> 'a" where
  "record_of assignments = map_of (rev (filter (\<lambda>a. fst a \<noteq> ''__proto__'') assignments))"

text \<open>\<^verbatim>\<open>Array.prototype.slice(0, end)\<close>: a negative end counts from the end of the array.\<close>

definition slice0 :: "int \<Rightarrow> 'a list \<Rightarrow> 'a list" where
  "slice0 e xs = (if e < 0 then take (nat (int (length xs) + e)) xs else take (nat e) xs)"

text \<open>
  \<^verbatim>\<open>options.ttlSeconds ? nowIso(new Date(now.getTime() + options.ttlSeconds * 1000)) : null\<close>.
  A time to live is a natural number of seconds, as the service passes it; the sum is
  then exact whenever it is a valid date, and \<^verbatim>\<open>toISOString\<close> raises a \<^verbatim>\<open>RangeError\<close> when it
  is not.
\<close>

definition expiry_of :: "nat option \<Rightarrow> nat \<Rightarrow> error + nat option" where
  "expiry_of ttlSeconds now =
     (case ttlSeconds of None \<Rightarrow> Inr None
      | Some t \<Rightarrow> if t = 0 then Inr None
                 else if max_time < now + t * 1000 then Inl RangeError
                 else Inr (Some (now + t * 1000)))"

section \<open>The SQLite adapter\<close>

text \<open>
  A row of the \<^verbatim>\<open>items\<close> table, with the columns of the schema. The table is the list of
  its rows; the primary key \<^verbatim>\<open>(tenant_id, namespace, user_id, key)\<close> is unique in a table
  that the database maintains (\<open>pk_unique\<close>).
\<close>

record SqliteRow =
  row_tenantId :: string
  row_namespace :: string
  row_userId :: string
  row_key :: string
  row_valueJson :: string
  row_version :: int
  row_expiresAt :: "nat option"
  row_createdAt :: nat
  row_updatedAt :: nat

type_synonym sqlite_db = "SqliteRow list"

text \<open>The three \<^verbatim>\<open>eq\<close> clauses on the scope columns, and the fourth on the key.\<close>

definition in_scope :: "SqliteRow \<Rightarrow> StorageScope \<Rightarrow> bool" where
  "in_scope r scope =
     (row_tenantId r = tenantId scope \<and> row_namespace r = namespace scope \<and>
      row_userId r = userId scope)"

definition pk_eq :: "SqliteRow \<Rightarrow> StorageScope \<Rightarrow> string \<Rightarrow> bool" where
  "pk_eq r scope k = (in_scope r scope \<and> row_key r = k)"

definition pk_of :: "SqliteRow \<Rightarrow> string \<times> string \<times> string \<times> string" where
  "pk_of r = (row_tenantId r, row_namespace r, row_userId r, row_key r)"

definition pk_unique :: "sqlite_db \<Rightarrow> bool" where
  "pk_unique db = distinct (map pk_of db)"

text \<open>\<^verbatim>\<open>or(isNull(expiresAt), gt(expiresAt, currentIso))\<close>\<close>

definition notExpiredClause :: "SqliteRow \<Rightarrow> nat \<Rightarrow> bool" where
  "notExpiredClause r currentIso =
     (case row_expiresAt r of None \<Rightarrow> True | Some e \<Rightarrow> iso_less currentIso e)"

definition getRow :: "sqlite_db \<Rightarrow> StorageScope \<Rightarrow> string \<Rightarrow> bool \<Rightarrow> nat \<Rightarrow> SqliteRow option" where
  "getRow db scope k onlyActive now =
     (case filter (\<lambda>r. pk_eq r scope k \<and> (if onlyActive then notExpiredClause r now else True)) db of
        [] \<Rightarrow> None
      | r # _ \<Rightarrow> Some r)"

definition toStoredItem :: "SqliteRow \<Rightarrow> StoredItem" where
  "toStoredItem r =
     \<lparr>key = row_key r, val = row_valueJson r, version = row_version r,
      etag = etagFromVersion (row_version r), createdAt = row_createdAt r,
      updatedAt = row_updatedAt r, expiresAt = row_expiresAt r\<rparr>"

definition sqlite_get ::
  "sqlite_db \<Rightarrow> StorageScope \<Rightarrow> string \<Rightarrow> nat \<Rightarrow> (error + StoredItem option) \<times> sqlite_db" where
  "sqlite_get db scope k now =
     (case getRow db scope k True now of
        None \<Rightarrow> (Inr None, db)
      | Some r \<Rightarrow> (Inr (Some (toStoredItem r)), db))"

text \<open>
  \<^verbatim>\<open>INSERT ... ON CONFLICT (tenant_id, namespace, user_id, key) DO UPDATE SET value_json,
  version, expires_at, updated_at\<close>: a row with the same primary key keeps every column
  that the \<^verbatim>\<open>set\<close> clause does not name.
\<close>

definition insertOnConflictDoUpdate :: "sqlite_db \<Rightarrow> SqliteRow \<Rightarrow> sqlite_db" where
  "insertOnConflictDoUpdate db new =
     (if \<exists>r \<in> set db. pk_of r = pk_of new
      then map (\<lambda>r. if pk_of r = pk_of new
                     then r\<lparr>row_valueJson := row_valueJson new, row_version := row_version new,
                            row_expiresAt := row_expiresAt new, row_updatedAt := row_updatedAt new\<rparr>
                     else r) db
      else db @ [new])"

definition activeRow :: "SqliteRow option \<Rightarrow> nat \<Rightarrow> SqliteRow option" where
  "activeRow current now =
     (case current of None \<Rightarrow> None
      | Some r \<Rightarrow> if \<not> isExpired (row_expiresAt r) now then Some r else None)"

definition sqlite_put ::
  "sqlite_db \<Rightarrow> StorageScope \<Rightarrow> string \<Rightarrow> string \<Rightarrow> nat option \<Rightarrow> int option \<Rightarrow> nat
     \<Rightarrow> (error + StoredItem) \<times> sqlite_db" where
  "sqlite_put db scope k v ttlSeconds ifMatchVersion now =
     (let current = getRow db scope k False now;
          activeCurrent = activeRow current now
      in if (case ifMatchVersion of None \<Rightarrow> False
             | Some m \<Rightarrow> (case activeCurrent of None \<Rightarrow> True | Some a \<Rightarrow> row_version a \<noteq> m))
         then (Inl PreconditionFailedError, db)
         else
           (let version = (case activeCurrent of Some a \<Rightarrow> round_int (row_version a + 1)
                           | None \<Rightarrow> 1)
            in case expiry_of ttlSeconds now of
                 Inl e \<Rightarrow> (Inl e, db)
               | Inr expiry \<Rightarrow>
                   (let created = (case activeCurrent of Some a \<Rightarrow> row_createdAt a | None \<Rightarrow> now);
                        db' = insertOnConflictDoUpdate db
                                \<lparr>row_tenantId = tenantId scope, row_namespace = namespace scope,
                                 row_userId = userId scope, row_key = k, row_valueJson = v,
                                 row_version = version, row_expiresAt = expiry,
                                 row_createdAt = created, row_updatedAt = now\<rparr>
                    in (Inr \<lparr>key = k, val = v, version = version, etag = etagFromVersion version,
                             createdAt = created, updatedAt = now, expiresAt = expiry\<rparr>,
                        db'))))"

definition sqlite_delete ::
  "sqlite_db \<Rightarrow> StorageScope \<Rightarrow> string \<Rightarrow> int option \<Rightarrow> nat \<Rightarrow> (error + bool) \<times> sqlite_db" where
  "sqlite_delete db scope k ifMatchVersion now =
     (case getRow db scope k False now of
        None \<Rightarrow> (Inr False, db)
      | Some current \<Rightarrow>
          if (case ifMatchVersion of None \<Rightarrow> False
              | Some m \<Rightarrow> isExpired (row_expiresAt current) now \<or> row_version current \<noteq> m)
          then (Inl PreconditionFailedError, db)
          else (Inr (\<not> isExpired (row_expiresAt current) now),
                filter (\<lambda>r. \<not> pk_eq r scope k) db))"

text \<open>\<^verbatim>\<open>batchGet\<close> assigns to \<^verbatim>\<open>result[key]\<close> what \<^verbatim>\<open>get\<close> returns, for each key of the request.\<close>

definition sqlite_batchGet ::
  "sqlite_db \<Rightarrow> StorageScope \<Rightarrow> string list \<Rightarrow> nat
     \<Rightarrow> (error + (string \<rightharpoonup> StoredItem option)) \<times> sqlite_db" where
  "sqlite_batchGet db scope keys now =
     (Inr (record_of (map (\<lambda>k. (k, map_option toStoredItem (getRow db scope k True now))) keys)),
      db)"

text \<open>The loop of \<^verbatim>\<open>batchPut\<close>: the assignments to \<^verbatim>\<open>result\<close> in the order of the entries, up
  to the first \<^verbatim>\<open>put\<close> that raises.\<close>

fun sqlite_batchPut_loop ::
  "sqlite_db \<Rightarrow> StorageScope \<Rightarrow> BatchPutEntry list \<Rightarrow> nat
     \<Rightarrow> (error + (string \<times> StoredItem) list) \<times> sqlite_db" where
  "sqlite_batchPut_loop db scope [] now = (Inr [], db)"
| "sqlite_batchPut_loop db scope (entry # entries) now =
     (case sqlite_put db scope (entry_key entry) (entry_value entry) (entry_ttlSeconds entry)
             (entry_ifMatchVersion entry) now of
        (Inl e, db') \<Rightarrow> (Inl e, db')
      | (Inr item, db') \<Rightarrow>
          (case sqlite_batchPut_loop db' scope entries now of
             (Inl e, db'') \<Rightarrow> (Inl e, db'')
           | (Inr result, db'') \<Rightarrow> (Inr ((entry_key entry, item) # result), db'')))"

definition sqlite_batchPut ::
  "sqlite_db \<Rightarrow> StorageScope \<Rightarrow> BatchPutEntry list \<Rightarrow> nat
     \<Rightarrow> (error + (string \<rightharpoonup> StoredItem)) \<times> sqlite_db" where
  "sqlite_batchPut db scope entries now =
     (case sqlite_batchPut_loop db scope entries now of
        (result, db') \<Rightarrow> (map_sum id record_of result, db'))"

text \<open>
  The \<^verbatim>\<open>LIKE\<close> operator of SQLite, which \<^verbatim>\<open>like(key, prefix + '%')\<close> compiles to: \<open>%\<close> matches
  any run of characters, \<open>_\<close> matches any one character, and any other character matches
  itself without regard to the case of ASCII letters. A character is a byte and, when
  that byte is \<open>0xC0\<close> or more, the continuation bytes that follow it.
\<close>

definition skip_char :: "string \<Rightarrow> string" where
  "skip_char s =
     (case s of [] \<Rightarrow> []
      | c # cs \<Rightarrow> if 192 \<le> (of_char c :: nat) then dropWhile is_cont cs else cs)"

definition char_start :: "string \<Rightarrow> bool" where
  "char_start s = (case s of [] \<Rightarrow> True | c # cs \<Rightarrow> \<not> is_cont c)"

definition ascii_upper :: "char \<Rightarrow> char" where
  "ascii_upper c =
     (if 97 \<le> (of_char c :: nat) \<and> (of_char c :: nat) \<le> 122 then char_of ((of_char c :: nat) - 32)
      else c)"

fun like :: "string \<Rightarrow> string \<Rightarrow> bool" where
  "like [] s = (s = [])"
| "like (p # ps) s =
     (if p = CHR ''%''
      then list_ex (\<lambda>n. (n = 0 \<or> char_start (drop n s)) \<and> like ps (drop n s)) [0..<Suc (length s)]
      else if p = CHR ''_'' then s \<noteq> [] \<and> like ps (skip_char s)
      else (case s of [] \<Rightarrow> False | c # cs \<Rightarrow> ascii_upper p = ascii_upper c \<and> like ps cs))"

text \<open>\<^verbatim>\<open>LIMIT n\<close> in SQLite: a negative bound is no bound.\<close>

definition sql_limit :: "int \<Rightarrow> 'a list \<Rightarrow> 'a list" where
  "sql_limit n xs = (if n < 0 then xs else take (nat n) xs)"

text \<open>The \<^verbatim>\<open>WHERE\<close> clause that \<^verbatim>\<open>list\<close> assembles.\<close>

definition list_clauses ::
  "StorageScope \<Rightarrow> string option \<Rightarrow> string option \<Rightarrow> nat \<Rightarrow> SqliteRow \<Rightarrow> bool" where
  "list_clauses scope prefix cursorKey currentIso r =
     (in_scope r scope \<and> notExpiredClause r currentIso \<and>
      (case prefix of None \<Rightarrow> True
       | Some p \<Rightarrow> if p = [] then True else like (p @ ''%'') (row_key r)) \<and>
      (case cursorKey of None \<Rightarrow> True
       | Some c \<Rightarrow> if c = [] then True else c < row_key r))"

definition sqlite_list ::
  "sqlite_db \<Rightarrow> StorageScope \<Rightarrow> string option \<Rightarrow> string option \<Rightarrow> int option \<Rightarrow> nat
     \<Rightarrow> (error + ListResult) \<times> sqlite_db" where
  "sqlite_list db scope prefix cursor limit now =
     (let lim = (case limit of None \<Rightarrow> 50 | Some l \<Rightarrow> l);
          cursorKey = decodeCursor cursor;
          rows = sql_limit (lim + 1)
                   (sort_key row_key (filter (list_clauses scope prefix cursorKey now) db));
          page = map toStoredItem (slice0 lim rows);
          next = (if lim < int (length rows) \<and> 0 < length page
                  then Some (encodeCursor (key (last page))) else None)
      in (Inr \<lparr>items = page, nextCursor = next\<rparr>, db))"

section \<open>The Redis adapter\<close>

text \<open>
  The keyspace is the list of its keys with the envelope stored under each; the JSON text
  of an envelope is modelled by the envelope. The server's own timer (\<^verbatim>\<open>EX\<close>) removes a
  key no earlier than its envelope expires, so it is left to the environment: a state may
  or may not still hold an expired envelope.
\<close>

record RedisEnvelope =
  env_valueJson :: string
  env_version :: int
  env_createdAt :: nat
  env_updatedAt :: nat
  env_expiresAt :: "nat option"

type_synonym redis_db = "(string \<times> RedisEnvelope) list"

definition client_get :: "redis_db \<Rightarrow> string \<Rightarrow> RedisEnvelope option" where
  "client_get db redisKey = map_of db redisKey"

fun client_set :: "redis_db \<Rightarrow> string \<Rightarrow> RedisEnvelope \<Rightarrow> redis_db" where
  "client_set [] redisKey e = [(redisKey, e)]"
| "client_set (p # ps) redisKey e =
     (if fst p = redisKey then (redisKey, e) # ps else p # client_set ps redisKey e)"

definition client_del :: "redis_db \<Rightarrow> string \<Rightarrow> redis_db" where
  "client_del db redisKey = filter (\<lambda>p. fst p \<noteq> redisKey) db"

text \<open>
  What \<^verbatim>\<open>multi.exec()\<close> returns on a watched key: the transaction commits, or it is
  aborted (\<^verbatim>\<open>null\<close>) because another client wrote the key after \<^verbatim>\<open>WATCH\<close>; the keyspace that
  client left behind comes with the abort. An operation is given the outcomes of its
  successive attempts; when the list is used up, every further attempt commits.
\<close>

datatype exec_outcome = Committed | Aborted redis_db

text \<open>The first attempt of an operation commits.\<close>

definition commits_first :: "exec_outcome list \<Rightarrow> bool" where
  "commits_first outcomes = (case outcomes of Aborted db' # rest \<Rightarrow> False | _ \<Rightarrow> True)"

definition toScopePrefix :: "StorageScope \<Rightarrow> string" where
  "toScopePrefix scope =
     ''t:'' @ tenantId scope @ '':n:'' @ namespace scope @ '':u:'' @ userId scope @ '':k:''"

definition toRedisKey :: "StorageScope \<Rightarrow> string \<Rightarrow> string" where
  "toRedisKey scope k = toScopePrefix scope @ k"

text \<open>\<^verbatim>\<open>redisKey.indexOf(':k:')\<close> finds the first occurrence of the marker.\<close>

fun fromRedisKey :: "string \<Rightarrow> string option" where
  "fromRedisKey [] = None"
| "fromRedisKey (c # cs) =
     (if take 3 (c # cs) = '':k:'' then Some (drop 3 (c # cs)) else fromRedisKey cs)"

definition envToStoredItem :: "string \<Rightarrow> RedisEnvelope \<Rightarrow> StoredItem" where
  "envToStoredItem k envelope =
     \<lparr>key = k, val = env_valueJson envelope, version = env_version envelope,
      etag = etagFromVersion (env_version envelope), createdAt = env_createdAt envelope,
      updatedAt = env_updatedAt envelope, expiresAt = env_expiresAt envelope\<rparr>"

definition redis_get ::
  "redis_db \<Rightarrow> StorageScope \<Rightarrow> string \<Rightarrow> nat \<Rightarrow> (error + StoredItem option) \<times> redis_db" where
  "redis_get db scope k now =
     (let redisKey = toRedisKey scope k in
      case client_get db redisKey of
        None \<Rightarrow> (Inr None, db)
      | Some envelope \<Rightarrow>
          if isExpired (env_expiresAt envelope) now then (Inr None, client_del db redisKey)
          else (Inr (Some (envToStoredItem k envelope)), db))"

definition activeEnvelope :: "RedisEnvelope option \<Rightarrow> nat \<Rightarrow> RedisEnvelope option" where
  "activeEnvelope currentEnvelope now =
     (case currentEnvelope of None \<Rightarrow> None
      | Some e \<Rightarrow> if \<not> isExpired (env_expiresAt e) now then Some e else None)"

text \<open>The loop \<^verbatim>\<open>for (attempt = 0; attempt < 5; attempt += 1)\<close> of \<^verbatim>\<open>put\<close> and of \<^verbatim>\<open>delete\<close>, by
  the number of attempts that are left.\<close>

definition max_attempts :: nat where
  "max_attempts = 5"

fun redis_put_attempts ::
  "nat \<Rightarrow> exec_outcome list \<Rightarrow> redis_db \<Rightarrow> StorageScope \<Rightarrow> string \<Rightarrow> string \<Rightarrow> nat option
     \<Rightarrow> int option \<Rightarrow> nat \<Rightarrow> (error + StoredItem) \<times> redis_db" where
  "redis_put_attempts 0 outcomes db scope k v ttlSeconds ifMatchVersion now =
     (Inl PreconditionFailedError, db)"
| "redis_put_attempts (Suc n) outcomes db scope k v ttlSeconds ifMatchVersion now =
     (let redisKey = toRedisKey scope k;
          activeCurrent = activeEnvelope (client_get db redisKey) now
      in if (case ifMatchVersion of None \<Rightarrow> False
             | Some m \<Rightarrow> (case activeCurrent of None \<Rightarrow> True | Some a \<Rightarrow> env_version a \<noteq> m))
         then (Inl PreconditionFailedError, db)
         else
           (let version = (case activeCurrent of Some a \<Rightarrow> round_int (env_version a + 1)
                           | None \<Rightarrow> 1)
            in case expiry_of ttlSeconds now of
                 Inl e \<Rightarrow> (Inl e, db)
               | Inr expiry \<Rightarrow>
                   (let envelope = \<lparr>env_valueJson = v, env_version = version,
                                    env_createdAt = (case activeCurrent of
                                                       Some a \<Rightarrow> env_createdAt a | None \<Rightarrow> now),
                                    env_updatedAt = now, env_expiresAt = expiry\<rparr>
                    in case outcomes of
                         Aborted db' # rest \<Rightarrow>
                           redis_put_attempts n rest db' scope k v ttlSeconds ifMatchVersion now
                       | Committed # rest \<Rightarrow>
                           (Inr (envToStoredItem k envelope), client_set db redisKey envelope)
                       | [] \<Rightarrow>
                           (Inr (envToStoredItem k envelope), client_set db redisKey envelope))))"

definition redis_put ::
  "exec_outcome list \<Rightarrow> redis_db \<Rightarrow> StorageScope \<Rightarrow> string \<Rightarrow> string \<Rightarrow> nat option
     \<Rightarrow> int option \<Rightarrow> nat \<Rightarrow> (error + StoredItem) \<times> redis_db" where
  "redis_put outcomes db scope k v ttlSeconds ifMatchVersion now =
     redis_put_attempts max_attempts outcomes db scope k v ttlSeconds ifMatchVersion now"

fun redis_delete_attempts ::
  "nat \<Rightarrow> exec_outcome list \<Rightarrow> redis_db \<Rightarrow> StorageScope \<Rightarrow> string \<Rightarrow> int option \<Rightarrow> nat
     \<Rightarrow> (error + bool) \<times> redis_db" where
  "redis_delete_attempts 0 outcomes db scope k ifMatchVersion now =
     (Inl PreconditionFailedError, db)"
| "redis_delete_attempts (Suc n) outcomes db scope k ifMatchVersion now =
     (let redisKey = toRedisKey scope k in
      case client_get db redisKey of
        None \<Rightarrow> (Inr False, db)
      | Some currentEnvelope \<Rightarrow>
          if (case ifMatchVersion of None \<Rightarrow> False
              | Some m \<Rightarrow> isExpired (env_expiresAt currentEnvelope) now \<or>
                          env_version currentEnvelope \<noteq> m)
          then (Inl PreconditionFailedError, db)
          else (case outcomes of
                  Aborted db' # rest \<Rightarrow>
                    redis_delete_attempts n rest db' scope k ifMatchVersion now
                | Committed # rest \<Rightarrow>
                    (Inr (\<not> isExpired (env_expiresAt currentEnvelope) now), client_del db redisKey)
                | [] \<Rightarrow>
                    (Inr (\<not> isExpired (env_expiresAt currentEnvelope) now), client_del db redisKey)))"

definition redis_delete ::
  "exec_outcome list \<Rightarrow> redis_db \<Rightarrow> StorageScope \<Rightarrow> string \<Rightarrow> int option \<Rightarrow> nat
     \<Rightarrow> (error + bool) \<times> redis_db" where
  "redis_delete outcomes db scope k ifMatchVersion now =
     redis_delete_attempts max_attempts outcomes db scope k ifMatchVersion now"

definition redis_batchGet ::
  "redis_db \<Rightarrow> StorageScope \<Rightarrow> string list \<Rightarrow> nat
     \<Rightarrow> (error + (string \<rightharpoonup> StoredItem option)) \<times> redis_db" where
  "redis_batchGet db scope keys now =
     (Inr (record_of
             (map (\<lambda>k. (k, case client_get db (toRedisKey scope k) of
                               None \<Rightarrow> None
                             | Some envelope \<Rightarrow>
                                 if isExpired (env_expiresAt envelope) now then None
                                 else Some (envToStoredItem k envelope))) keys)), db)"

text \<open>In a batch, the \<open>i\<close>-th entry's \<^verbatim>\<open>put\<close> is given the \<open>i\<close>-th list of outcomes.\<close>

fun redis_batchPut_loop ::
  "exec_outcome list list \<Rightarrow> redis_db \<Rightarrow> StorageScope \<Rightarrow> BatchPutEntry list \<Rightarrow> nat
     \<Rightarrow> (error + (string \<times> StoredItem) list) \<times> redis_db" where
  "redis_batchPut_loop outcomes db scope [] now = (Inr [], db)"
| "redis_batchPut_loop outcomes db scope (entry # entries) now =
     (case redis_put (case outcomes of [] \<Rightarrow> [] | os # _ \<Rightarrow> os) db scope (entry_key entry)
             (entry_value entry) (entry_ttlSeconds entry) (entry_ifMatchVersion entry) now of
        (Inl e, db') \<Rightarrow> (Inl e, db')
      | (Inr item, db') \<Rightarrow>
          (case redis_batchPut_loop (tl outcomes) db' scope entries now of
             (Inl e, db'') \<Rightarrow> (Inl e, db'')
           | (Inr result, db'') \<Rightarrow> (Inr ((entry_key entry, item) # result), db'')))"

definition redis_batchPut ::
  "exec_outcome list list \<Rightarrow> redis_db \<Rightarrow> StorageScope \<Rightarrow> BatchPutEntry list \<Rightarrow> nat
     \<Rightarrow> (error + (string \<rightharpoonup> StoredItem)) \<times> redis_db" where
  "redis_batchPut outcomes db scope entries now =
     (case redis_batchPut_loop outcomes db scope entries now of
        (result, db') \<Rightarrow> (map_sum id record_of result, db'))"

text \<open>
  Two functions of the environment that \<^verbatim>\<open>list\<close> calls: the server's glob matcher behind
  \<^verbatim>\<open>SCAN ... MATCH pattern\<close> (pattern first), and \<^verbatim>\<open>String.prototype.localeCompare\<close> of the
  JavaScript runtime.
\<close>

record runtime =
  scan_match :: "string \<Rightarrow> string \<Rightarrow> bool"
  localeCompare :: "string \<Rightarrow> string \<Rightarrow> int"

text \<open>\<^verbatim>\<open>Array.prototype.sort(compare)\<close>, a stable sort: insertion from the right, an element
  going before the first one it does not compare greater than.\<close>

fun sort_insert :: "('a \<Rightarrow> 'a \<Rightarrow> int) \<Rightarrow> 'a \<Rightarrow> 'a list \<Rightarrow> 'a list" where
  "sort_insert cmp x [] = [x]"
| "sort_insert cmp x (y # ys) = (if cmp x y \<le> 0 then x # y # ys else y # sort_insert cmp x ys)"

definition js_sort :: "('a \<Rightarrow> 'a \<Rightarrow> int) \<Rightarrow> 'a list \<Rightarrow> 'a list" where
  "js_sort cmp xs = foldr (sort_insert cmp) xs []"

text \<open>The body of the \<^verbatim>\<open>for await\<close> loop of \<^verbatim>\<open>list\<close>, over the keys that the scan yields.\<close>

fun scan_loop ::
  "redis_db \<Rightarrow> string option \<Rightarrow> nat \<Rightarrow> string list \<Rightarrow> (string \<times> StoredItem) list" where
  "scan_loop db cursorKey now [] = []"
| "scan_loop db cursorKey now (redisKey # keys) =
     (case fromRedisKey redisKey of
        None \<Rightarrow> scan_loop db cursorKey now keys
      | Some k \<Rightarrow>
          if k = [] then scan_loop db cursorKey now keys
          else if (case cursorKey of None \<Rightarrow> False | Some c \<Rightarrow> c \<noteq> [] \<and> k \<le> c)
          then scan_loop db cursorKey now keys
          else (case client_get db redisKey of
                  None \<Rightarrow> scan_loop db cursorKey now keys
                | Some envelope \<Rightarrow>
                    if isExpired (env_expiresAt envelope) now then scan_loop db cursorKey now keys
                    else (k, envToStoredItem k envelope) # scan_loop db cursorKey now keys))"

text \<open>The comparison that \<^verbatim>\<open>list\<close> hands to \<^verbatim>\<open>sort\<close>:
  \<^verbatim>\<open>(left, right) => left.key.localeCompare(right.key)\<close>.\<close>

definition by_key :: "runtime \<Rightarrow> string \<times> StoredItem \<Rightarrow> string \<times> StoredItem \<Rightarrow> int" where
  "by_key rt left right = localeCompare rt (fst left) (fst right)"

text \<open>What the loop collects: the scan yields the keys that match the pattern.\<close>

definition redis_found ::
  "runtime \<Rightarrow> redis_db \<Rightarrow> string \<Rightarrow> string option \<Rightarrow> nat \<Rightarrow> (string \<times> StoredItem) list" where
  "redis_found rt db pattern cursorKey now =
     scan_loop db cursorKey now (filter (scan_match rt pattern) (map fst db))"

definition list_pattern :: "StorageScope \<Rightarrow> string option \<Rightarrow> string" where
  "list_pattern scope prefix =
     toScopePrefix scope @ (case prefix of None \<Rightarrow> [] | Some p \<Rightarrow> p) @ ''*''"

definition redis_list ::
  "runtime \<Rightarrow> redis_db \<Rightarrow> StorageScope \<Rightarrow> string option \<Rightarrow> string option \<Rightarrow> int option \<Rightarrow> nat
     \<Rightarrow> (error + ListResult) \<times> redis_db" where
  "redis_list rt db scope prefix cursor limit now =
     (let lim = (case limit of None \<Rightarrow> 50 | Some l \<Rightarrow> l);
          cursorKey = decodeCursor cursor;
          pattern = list_pattern scope prefix;
          found = redis_found rt db pattern cursorKey now;
          sorted = js_sort (by_key rt) found;
          page = slice0 lim sorted;
          next = (if lim < int (length sorted) \<and> 0 < length page then Some (last page) else None)
      in (Inr \<lparr>items = map snd page,
               nextCursor = (case next of None \<Rightarrow> None | Some n \<Rightarrow> Some (encodeCursor (fst n)))\<rparr>,
          db))"

section \<open>The storage service\<close>

text \<open>
  The adapter contract, as the record of an adapter's operations over its backend state
  \<open>'db\<close>; the service is written against it. The limits of the service are the fields of
  \<open>StorageService\<close>.
\<close>

record 'db StorageAdapter =
  adapter_get :: "'db \<Rightarrow> StorageScope \<Rightarrow> string \<Rightarrow> nat \<Rightarrow> (error + StoredItem option) \<times> 'db"
  adapter_put ::
    "'db \<Rightarrow> StorageScope \<Rightarrow> string \<Rightarrow> string \<Rightarrow> nat option \<Rightarrow> int option \<Rightarrow> nat
       \<Rightarrow> (error + StoredItem) \<times> 'db"
  adapter_delete :: "'db \<Rightarrow> StorageScope \<Rightarrow> string \<Rightarrow> int option \<Rightarrow> nat \<Rightarrow> (error + bool) \<times> 'db"
  adapter_batchGet ::
    "'db \<Rightarrow> StorageScope \<Rightarrow> string list \<Rightarrow> nat
       \<Rightarrow> (error + (string \<rightharpoonup> StoredItem option)) \<times> 'db"
  adapter_batchPut ::
    "'db \<Rightarrow> StorageScope \<Rightarrow> BatchPutEntry list \<Rightarrow> nat
       \<Rightarrow> (error + (string \<rightharpoonup> StoredItem)) \<times> 'db"
  adapter_list ::
    "'db \<Rightarrow> StorageScope \<Rightarrow> string option \<Rightarrow> string option \<Rightarrow> int option \<Rightarrow> nat
       \<Rightarrow> (error + ListResult) \<times> 'db"

record StorageService =
  maxKeyLength :: nat
  maxValueBytes :: nat
  maxBatchSize :: nat
  maxListLimit :: int

definition default_service :: StorageService where
  "default_service =
     \<lparr>maxKeyLength = 255, maxValueBytes = 1024 * 1024, maxBatchSize = 100, maxListLimit = 100\<rparr>"

definition validateScope :: "StorageScope \<Rightarrow> error option" where
  "validateScope scope =
     (if tenantId scope = [] \<or> namespace scope = [] \<or> userId scope = []
      then Some ValidationError else None)"

definition validateKey :: "StorageService \<Rightarrow> string \<Rightarrow> error option" where
  "validateKey svc k =
     (if k = [] then Some ValidationError
      else if maxKeyLength svc < utf16_length k then Some ValidationError
      else None)"

text \<open>\<^verbatim>\<open>Buffer.byteLength(serialized, 'utf8')\<close> is the number of bytes.\<close>

definition validateValue :: "StorageService \<Rightarrow> string \<Rightarrow> error option" where
  "validateValue svc v = (if maxValueBytes svc < length v then Some ValidationError else None)"

definition validateIfMatch :: "string option \<Rightarrow> error + int option" where
  "validateIfMatch ifMatch =
     (case ifMatch of
        None \<Rightarrow> Inr None
      | Some s \<Rightarrow>
          if length s = 0 then Inr None
          else (case normalizeIfMatch (Some s) of
                  None \<Rightarrow> Inl PreconditionFailedError
                | Some v \<Rightarrow> if v = 0 then Inl PreconditionFailedError else Inr (Some v)))"

text \<open>What \<^verbatim>\<open>validateTtlSeconds\<close> returns, when it is not \<^verbatim>\<open>undefined\<close>, is a positive integer.\<close>

definition validateTtlSeconds :: "jsnum option \<Rightarrow> error + nat option" where
  "validateTtlSeconds ttlSeconds =
     (case ttlSeconds of
        None \<Rightarrow> Inr None
      | Some t \<Rightarrow>
          if \<not> isInteger t then Inl ValidationError
          else (case t of
                  Fin r \<Rightarrow> if r \<le> 0 then Inl ValidationError else Inr (Some (nat \<lfloor>r\<rfloor>))
                | _ \<Rightarrow> Inl ValidationError))"

definition getItem ::
  "StorageService \<Rightarrow> 'db StorageAdapter \<Rightarrow> 'db \<Rightarrow> StorageScope \<Rightarrow> string \<Rightarrow> nat
     \<Rightarrow> (error + StoredItem option) \<times> 'db" where
  "getItem svc ad db scope k now =
     (case validateScope scope of Some e \<Rightarrow> (Inl e, db)
      | None \<Rightarrow>
     (case validateKey svc k of Some e \<Rightarrow> (Inl e, db)
      | None \<Rightarrow> adapter_get ad db scope k now))"

definition setItem ::
  "StorageService \<Rightarrow> 'db StorageAdapter \<Rightarrow> 'db \<Rightarrow> StorageScope \<Rightarrow> string \<Rightarrow> string
     \<Rightarrow> jsnum option \<Rightarrow> string option \<Rightarrow> nat \<Rightarrow> (error + StoredItem) \<times> 'db" where
  "setItem svc ad db scope k v ttl ifMatch now =
     (case validateScope scope of Some e \<Rightarrow> (Inl e, db)
      | None \<Rightarrow>
     (case validateKey svc k of Some e \<Rightarrow> (Inl e, db)
      | None \<Rightarrow>
     (case validateValue svc v of Some e \<Rightarrow> (Inl e, db)
      | None \<Rightarrow>
     (case validateTtlSeconds ttl of Inl e \<Rightarrow> (Inl e, db)
      | Inr ttlSeconds \<Rightarrow>
     (case validateIfMatch ifMatch of Inl e \<Rightarrow> (Inl e, db)
      | Inr ifMatchVersion \<Rightarrow> adapter_put ad db scope k v ttlSeconds ifMatchVersion now)))))"

definition removeItem ::
  "StorageService \<Rightarrow> 'db StorageAdapter \<Rightarrow> 'db \<Rightarrow> StorageScope \<Rightarrow> string \<Rightarrow> string option
     \<Rightarrow> nat \<Rightarrow> (error + bool) \<times> 'db" where
  "removeItem svc ad db scope k ifMatch now =
     (case validateScope scope of Some e \<Rightarrow> (Inl e, db)
      | None \<Rightarrow>
     (case validateKey svc k of Some e \<Rightarrow> (Inl e, db)
      | None \<Rightarrow>
     (case validateIfMatch ifMatch of Inl e \<Rightarrow> (Inl e, db)
      | Inr ifMatchVersion \<Rightarrow> adapter_delete ad db scope k ifMatchVersion now)))"








definition service_list ::
  "StorageService \<Rightarrow> 'db StorageAdapter \<Rightarrow> 'db \<Rightarrow> StorageScope \<Rightarrow> string option \<Rightarrow> string option
     \<Rightarrow> jsnum option \<Rightarrow> nat \<Rightarrow> (error + ListResult) \<times> 'db" where
  "service_list svc ad db scope prefix cursor limit now =
     (case validateScope scope of Some e \<Rightarrow> (Inl e, db)
      | None \<Rightarrow>
     (if (case prefix of None \<Rightarrow> False | Some p \<Rightarrow> maxKeyLength svc < utf16_length p)
      then (Inl ValidationError, db)
      else adapter_list ad db scope prefix cursor
             (Some (clampLimit limit (maxListLimit svc) 50)) now))"

text \<open>The two adapters as instances of the contract.\<close>

definition sqlite_adapter :: "sqlite_db StorageAdapter" where
  "sqlite_adapter =
     \<lparr>adapter_get = sqlite_get, adapter_put = sqlite_put, adapter_delete = sqlite_delete,
      adapter_batchGet = sqlite_batchGet, adapter_batchPut = sqlite_batchPut,
      adapter_list = sqlite_list\<rparr>"

definition redis_adapter :: "runtime \<Rightarrow> exec_outcome list \<Rightarrow> redis_db StorageAdapter" where
  "redis_adapter rt outcomes =
     \<lparr>adapter_get = redis_get, adapter_put = redis_put outcomes,
      adapter_delete = redis_delete outcomes, adapter_batchGet = redis_batchGet,
      adapter_batchPut = redis_batchPut [outcomes], adapter_list = redis_list rt\<rparr>"

section \<open>Observers and runs used in the statements\<close>




text \<open>The rows of one scope, and what the three reads of a scope return, together.\<close>

definition scope_view :: "sqlite_db \<Rightarrow> StorageScope \<Rightarrow> sqlite_db" where
  "scope_view db scope = filter (\<lambda>r. in_scope r scope) db"

definition sqlite_reads ::
  "sqlite_db \<Rightarrow> StorageScope \<Rightarrow> string \<Rightarrow> string list \<Rightarrow> string option \<Rightarrow> string option
     \<Rightarrow> int option \<Rightarrow> nat
     \<Rightarrow> (error + StoredItem option) \<times> (error + (string \<rightharpoonup> StoredItem option)) \<times>
        (error + ListResult)" where
  "sqlite_reads db scope k keys prefix cursor limit now =
     (fst (sqlite_get db scope k now), fst (sqlite_batchGet db scope keys now),
      fst (sqlite_list db scope prefix cursor limit now))"

text \<open>The version of the active item, as \<^verbatim>\<open>put\<close> reads it, and the version that \<^verbatim>\<open>put\<close>
  computes from it (\<^verbatim>\<open>activeCurrent ? activeCurrent.version + 1 : 1\<close>, an addition of
  doubles).\<close>

definition sqlite_current :: "sqlite_db \<Rightarrow> StorageScope \<Rightarrow> string \<Rightarrow> nat \<Rightarrow> int option" where
  "sqlite_current db scope k now =
     map_option row_version (activeRow (getRow db scope k False now) now)"

definition redis_current :: "redis_db \<Rightarrow> StorageScope \<Rightarrow> string \<Rightarrow> nat \<Rightarrow> int option" where
  "redis_current db scope k now =
     map_option env_version (activeEnvelope (client_get db (toRedisKey scope k)) now)"

definition next_version :: "int option \<Rightarrow> int" where
  "next_version current = (case current of None \<Rightarrow> 1 | Some c \<Rightarrow> round_int (c + 1))"

fun aborted :: "exec_outcome \<Rightarrow> bool" where
  "aborted (Aborted db') = True"
| "aborted Committed = False"

text \<open>The keyspace that the attempt which commits reads: the one that the last abort
  before it left behind.\<close>

fun committing_state :: "exec_outcome list \<Rightarrow> redis_db \<Rightarrow> redis_db" where
  "committing_state (Aborted db' # rest) db = committing_state rest db'"
| "committing_state (Committed # rest) db = db"
| "committing_state [] db = db"

text \<open>
  A client that calls \<^verbatim>\<open>put\<close> on one key again and again: each call is a value, a time to
  live, a version to match and the time of the call. The run returns the outcomes in
  order; a failed call leaves the state to the next one, as the exception does.
\<close>

type_synonym put_call = "string \<times> nat option \<times> int option \<times> nat"

fun puts_with ::
  "('db \<Rightarrow> string \<Rightarrow> nat option \<Rightarrow> int option \<Rightarrow> nat \<Rightarrow> (error + StoredItem) \<times> 'db) \<Rightarrow> 'db
     \<Rightarrow> put_call list \<Rightarrow> (error + StoredItem) list" where
  "puts_with put_op db [] = []"
| "puts_with put_op db ((v, ttl, m, now) # calls) =
     (case put_op db v ttl m now of (result, db') \<Rightarrow> result # puts_with put_op db' calls)"

definition sqlite_puts ::
  "sqlite_db \<Rightarrow> StorageScope \<Rightarrow> string \<Rightarrow> put_call list \<Rightarrow> (error + StoredItem) list" where
  "sqlite_puts db scope k calls = puts_with (\<lambda>db. sqlite_put db scope k) db calls"

text \<open>On Redis, with no other client writing the key in between.\<close>

definition redis_puts ::
  "redis_db \<Rightarrow> StorageScope \<Rightarrow> string \<Rightarrow> put_call list \<Rightarrow> (error + StoredItem) list" where
  "redis_puts db scope k calls = puts_with (\<lambda>db. redis_put [] db scope k) db calls"

text \<open>Each call finds what the previous call wrote not expired.\<close>

fun stays_active :: "put_call list \<Rightarrow> bool" where
  "stays_active ((v, ttl, m, now) # (v', ttl', m', now') # calls) =
     ((case expiry_of ttl now of Inl e \<Rightarrow> False | Inr written \<Rightarrow> \<not> isExpired written now') \<and>
      stays_active ((v', ttl', m', now') # calls))"
| "stays_active _ = True"

definition succeeded :: "error + StoredItem \<Rightarrow> bool" where
  "succeeded result = (case result of Inr item \<Rightarrow> True | Inl e \<Rightarrow> False)"

definition version_of :: "error + StoredItem \<Rightarrow> int" where
  "version_of result = (case result of Inr item \<Rightarrow> version item | Inl e \<Rightarrow> 0)"

definition first_time :: "put_call list \<Rightarrow> nat" where
  "first_time calls = (case calls of [] \<Rightarrow> 0 | (v, ttl, m, now) # _ \<Rightarrow> now)"

section \<open>Concrete states used in the examples\<close>

definition demo_scope :: StorageScope where
  "demo_scope = \<lparr>tenantId = ''default'', namespace = ''ns'', userId = ''u1''\<rparr>"

text \<open>A table whose only row, written at time 100 with a time to live of one second, has
  expired by time 5000; and the \<^verbatim>\<open>put\<close> that then overwrites it.\<close>

definition expired_db :: sqlite_db where
  "expired_db = snd (sqlite_put [] demo_scope ''k'' ''old'' (Some 1) None 100)"

definition expired_then_put :: "(error + StoredItem) \<times> sqlite_db" where
  "expired_then_put = sqlite_put expired_db demo_scope ''k'' ''new'' None None 5000"

text \<open>The same two steps on the Redis adapter.\<close>

definition expired_redis :: redis_db where
  "expired_redis = snd (redis_put [] [] demo_scope ''k'' ''old'' (Some 1) None 100)"

definition two_items :: sqlite_db where
  "two_items =
     snd (sqlite_put (snd (sqlite_put [] demo_scope ''a'' ''1'' None None 10))
            demo_scope ''b'' ''2'' None None 20)"

definition uix_db :: sqlite_db where
  "uix_db = snd (sqlite_put [] demo_scope ''uix'' ''1'' None None 10)"




text \<open>Two scopes that differ in \<^verbatim>\<open>namespace\<close> and in \<^verbatim>\<open>userId\<close>.\<close>

definition scope_A :: StorageScope where
  "scope_A = \<lparr>tenantId = ''a'', namespace = ''b:u:c'', userId = ''d''\<rparr>"

definition scope_B :: StorageScope where
  "scope_B = \<lparr>tenantId = ''a'', namespace = ''b'', userId = ''c:u:d''\<rparr>"

text \<open>Five attempts in a row that another client's write aborts.\<close>

definition five_aborts :: "exec_outcome list" where
  "five_aborts =
     [Aborted expired_redis, Aborted expired_redis, Aborted expired_redis, Aborted expired_redis,
      Aborted expired_redis]"

text \<open>Three calls within a minute, and two calls with an expiry between them.\<close>

definition three_puts :: "put_call list" where
  "three_puts =
     [(''a'', Some 60, None, 1000), (''b'', None, Some 1, 2000), (''c'', None, None, 3000)]"

definition expiring_puts :: "put_call list" where
  "expiring_puts = [(''a'', Some 1, None, 0), (''b'', None, None, 2000)]"




section \<open>Evaluation\<close>

lemmas sqlite_eval =
  sqlite_put_def sqlite_get_def sqlite_delete_def sqlite_list_def getRow_def pk_eq_def in_scope_def
  activeRow_def isExpired_def expiry_of_def insertOnConflictDoUpdate_def pk_of_def Let_def
  notExpiredClause_def toStoredItem_def list_clauses_def decodeCursor_def sql_limit_def slice0_def
  iso_le_def iso_less_def year_10000_def max_time_def round_int_def round53_def

lemma max_attempts_Suc: "max_attempts = Suc (Suc (Suc (Suc (Suc 0))))"
  by (simp add: max_attempts_def eval_nat_numeral)

lemmas redis_eval =
  redis_put_def redis_get_def redis_delete_def toRedisKey_def toScopePrefix_def client_get_def
  client_del_def activeEnvelope_def isExpired_def expiry_of_def envToStoredItem_def Let_def
  max_attempts_Suc iso_le_def iso_less_def year_10000_def max_time_def round_int_def round53_def

lemma expired_db_eq:
  "expired_db =
     [\<lparr>row_tenantId = ''default'', row_namespace = ''ns'', row_userId = ''u1'', row_key = ''k'',
       row_valueJson = ''old'', row_version = 1, row_expiresAt = Some 1100, row_createdAt = 100,
       row_updatedAt = 100\<rparr>]"
  by (simp add: expired_db_def demo_scope_def sqlite_eval)

lemma two_items_eq:
  "two_items =
     [\<lparr>row_tenantId = ''default'', row_namespace = ''ns'', row_userId = ''u1'', row_key = ''a'',
       row_valueJson = ''1'', row_version = 1, row_expiresAt = None, row_createdAt = 10,
       row_updatedAt = 10\<rparr>,
      \<lparr>row_tenantId = ''default'', row_namespace = ''ns'', row_userId = ''u1'', row_key = ''b'',
       row_valueJson = ''2'', row_version = 1, row_expiresAt = None, row_createdAt = 20,
       row_updatedAt = 20\<rparr>]"
  by (simp add: two_items_def demo_scope_def sqlite_eval)

lemma expired_redis_eq:
  "expired_redis =
     [(''t:default:n:ns:u:u1:k:k'',
       \<lparr>env_valueJson = ''old'', env_version = 1, env_createdAt = 100, env_updatedAt = 100,
        env_expiresAt = Some 1100\<rparr>)]"
  by (simp add: expired_redis_def demo_scope_def redis_eval)

section \<open>Defects\<close>

text \<open>
  Claim C3. A page of \<^verbatim>\<open>list\<close> holds the active items whose key starts with the given
  prefix, in ascending byte order of key. The code passes the prefix to \<^verbatim>\<open>LIKE\<close> as it is,
  so an underscore in it stands for any character: with the prefix \<open>ui_\<close> the page holds
  the key \<open>uix\<close>, which does not start with the prefix.
\<close>

theorem sqlite_list_prefix_is_a_pattern:
  "map_sum id (\<lambda>r. map key (items r))
     (fst (sqlite_list uix_db demo_scope (Some ''ui_'') None (Some 10) 20)) = Inr [''uix'']
   \<and> take (length ''ui_'') ''uix'' \<noteq> ''ui_''"
  by (simp add: uix_db_def demo_scope_def sqlite_eval ascii_upper_def skip_char_def char_start_def
      is_cont_def)

text \<open>
  Claim C5. A \<^verbatim>\<open>put\<close> that finds the prior row expired is a fresh insert: version 1 and
  \<^verbatim>\<open>createdAt\<close> the time of the write. The item that \<^verbatim>\<open>put\<close> returns says so, but the
  \<^verbatim>\<open>ON CONFLICT ... DO UPDATE\<close> clause does not set \<^verbatim>\<open>created_at\<close>: the row keeps the
  expired row's \<^verbatim>\<open>createdAt\<close> (100), and that is what the next \<^verbatim>\<open>get\<close> returns.
\<close>

theorem sqlite_put_over_expired_keeps_createdAt:
  "fst expired_then_put =
     Inr \<lparr>key = ''k'', val = ''new'', version = 1, etag = etagFromVersion 1, createdAt = 5000,
          updatedAt = 5000, expiresAt = None\<rparr>
   \<and> fst (sqlite_get (snd expired_then_put) demo_scope ''k'' 5001) =
     Inr (Some \<lparr>key = ''k'', val = ''new'', version = 1, etag = etagFromVersion 1,
                createdAt = 100, updatedAt = 5000, expiresAt = None\<rparr>)"
  by (simp add: expired_then_put_def expired_db_eq demo_scope_def sqlite_eval)

text \<open>
  Claim C7. The service clamps the limit of \<^verbatim>\<open>list\<close> to \<open>[1, maxListLimit]\<close>, a limit of
  zero becoming 1. In \<^verbatim>\<open>clampLimit\<close> the test \<^verbatim>\<open>!limit\<close> takes zero for an absent limit:
  zero becomes the default 50 (a negative limit becomes 1), and a \<^verbatim>\<open>list\<close> with limit 0
  returns both items of a two-item scope.
\<close>

theorem clampLimit_zero_is_default:
  "clampLimit (Some (Fin 0)) 100 50 = 50 \<and> clampLimit (Some (Fin (- 1))) 100 50 = 1
   \<and> map_sum id (\<lambda>r. map key (items r))
       (fst (service_list default_service sqlite_adapter two_items demo_scope None None
              (Some (Fin 0)) 30)) = Inr [''a'', ''b'']"
  by (simp add: trunc_def two_items_eq service_list_def default_service_def sqlite_adapter_def
      validateScope_def demo_scope_def sqlite_eval)

text \<open>
  Claim C9. A write under one scope does not change what a read under another scope
  returns. The Redis adapter joins the components of a scope with separators that the
  components may contain themselves, so the two scopes \<open>scope_A\<close> and \<open>scope_B\<close> share one
  key prefix: the item that \<open>scope_A\<close> writes is the item that \<open>scope_B\<close> reads.
\<close>

theorem redis_scopes_collide:
  "scope_A \<noteq> scope_B \<and> toScopePrefix scope_A = toScopePrefix scope_B
   \<and> fst (redis_get [] scope_B ''k'' 20) = Inr None
   \<and> fst (redis_get (snd (redis_put [] [] scope_A ''k'' ''secret'' None None 10)) scope_B ''k'' 20) =
     Inr (Some \<lparr>key = ''k'', val = ''secret'', version = 1, etag = etagFromVersion 1,
                createdAt = 10, updatedAt = 10, expiresAt = None\<rparr>)"
  by (simp add: scope_A_def scope_B_def redis_eval)

lemmas parse_eval =
  validateIfMatch_def normalizeIfMatch_def parseInt_def strip_quotes_def trim_def ws_length_def
  ws_length_end_def white_space_def is_digit_def digits_value_def digit_val_def round53_def

lemmas service_eval =
  setItem_def removeItem_def getItem_def validateScope_def validateKey_def validateValue_def
  validateTtlSeconds_def utf16_length_def is_cont_def default_service_def sqlite_adapter_def

text \<open>
  Claim C8. An \<^verbatim>\<open>If-Match\<close> is accepted when it is the decimal of a positive integer, bare
  or between double quotes, and any other string that is not empty raises a precondition
  failure. \<^verbatim>\<open>normalizeIfMatch\<close> reads the string with \<^verbatim>\<open>parseInt\<close>, which stops at the first
  character that is not a digit and ignores the rest: \<open>7abc\<close> is accepted as version 7,
  and with the header \<open>1abc\<close> \<^verbatim>\<open>setItem\<close> overwrites, and \<^verbatim>\<open>removeItem\<close> deletes, an item
  whose version is 1.
\<close>

theorem if_match_with_trailing_text_is_accepted:
  "validateIfMatch (Some ''7abc'') = Inr (Some 7)
   \<and> map_sum id version
       (fst (setItem default_service sqlite_adapter two_items demo_scope ''a'' ''x'' None
              (Some ''1abc'') 30)) = Inr 2
   \<and> fst (removeItem default_service sqlite_adapter two_items demo_scope ''a'' (Some ''1abc'') 30) =
       Inr True"
  by (simp add: parse_eval service_eval two_items_eq demo_scope_def sqlite_eval)

section \<open>Deleting what is absent or expired\<close>

lemma sqlite_delete_no_row:
  "getRow db scope k False now = None \<Longrightarrow> sqlite_delete db scope k m now = (Inr False, db)"
  by (simp add: sqlite_delete_def)

lemma sqlite_delete_expired:
  assumes "getRow db scope k False now = Some r" and "isExpired (row_expiresAt r) now"
  shows "sqlite_delete db scope k None now = (Inr False, filter (\<lambda>r. \<not> pk_eq r scope k) db)"
    and "sqlite_delete db scope k (Some v) now = (Inl PreconditionFailedError, db)"
  using assms by (simp_all add: sqlite_delete_def)

lemma redis_delete_no_row:
  "client_get db (toRedisKey scope k) = None \<Longrightarrow>
   redis_delete outcomes db scope k m now = (Inr False, db)"
  by (simp add: redis_delete_def max_attempts_Suc)

lemma redis_delete_expired:
  assumes "client_get db (toRedisKey scope k) = Some e" and "isExpired (env_expiresAt e) now"
  shows "commits_first outcomes \<Longrightarrow>
         redis_delete outcomes db scope k None now = (Inr False, client_del db (toRedisKey scope k))"
    and "redis_delete outcomes db scope k (Some v) now = (Inl PreconditionFailedError, db)"
  using assms
  by (simp_all add: redis_delete_def max_attempts_Suc commits_first_def
      split: list.splits exec_outcome.splits)

text \<open>
  Claim C4, as the code has it. A \<^verbatim>\<open>delete\<close> on a key with no row returns \<open>false\<close> and
  leaves the state alone, whether or not \<^verbatim>\<open>ifMatchVersion\<close> is given. A \<^verbatim>\<open>delete\<close> on a key
  whose stored row is expired returns \<open>false\<close> and removes the row when \<^verbatim>\<open>ifMatchVersion\<close>
  is absent (on Redis: when the first attempt commits); when \<^verbatim>\<open>ifMatchVersion\<close> is
  given, whatever its value, it raises a precondition failure and leaves the row.
\<close>

theorem delete_of_absent_or_expired:
  "(getRow db scope k False now = None \<longrightarrow> sqlite_delete db scope k m now = (Inr False, db))
   \<and> (\<forall>r. getRow db scope k False now = Some r \<and> isExpired (row_expiresAt r) now \<longrightarrow>
          sqlite_delete db scope k None now = (Inr False, filter (\<lambda>r. \<not> pk_eq r scope k) db)
        \<and> sqlite_delete db scope k (Some v) now = (Inl PreconditionFailedError, db))
   \<and> (client_get rdb (toRedisKey scope k) = None \<longrightarrow>
          redis_delete outcomes rdb scope k m now = (Inr False, rdb))
   \<and> (\<forall>e. client_get rdb (toRedisKey scope k) = Some e \<and> isExpired (env_expiresAt e) now \<longrightarrow>
          (commits_first outcomes \<longrightarrow>
             redis_delete outcomes rdb scope k None now =
               (Inr False, client_del rdb (toRedisKey scope k)))
        \<and> redis_delete outcomes rdb scope k (Some v) now = (Inl PreconditionFailedError, rdb))"
  by (simp add: sqlite_delete_no_row sqlite_delete_expired redis_delete_no_row
      redis_delete_expired)

theorem delete_of_absent_or_expired_witness:
  "sqlite_delete expired_db demo_scope ''other'' (Some 1) 5000 = (Inr False, expired_db)
   \<and> sqlite_delete expired_db demo_scope ''k'' None 5000 = (Inr False, [])
   \<and> sqlite_delete expired_db demo_scope ''k'' (Some 1) 5000 =
       (Inl PreconditionFailedError, expired_db)
   \<and> redis_delete [] expired_redis demo_scope ''other'' (Some 1) 5000 = (Inr False, expired_redis)
   \<and> redis_delete [] expired_redis demo_scope ''k'' None 5000 = (Inr False, [])
   \<and> redis_delete [] expired_redis demo_scope ''k'' (Some 1) 5000 =
       (Inl PreconditionFailedError, expired_redis)"
proof -
  let ?r = "hd expired_db" and ?e = "snd (hd expired_redis)"
  have a: "getRow expired_db demo_scope ''other'' False 5000 = None"
    by (simp add: expired_db_eq demo_scope_def getRow_def pk_eq_def)
  have b: "getRow expired_db demo_scope ''k'' False 5000 = Some ?r
           \<and> isExpired (row_expiresAt ?r) 5000"
    by (simp add: expired_db_eq demo_scope_def getRow_def pk_eq_def in_scope_def isExpired_def
        iso_le_def year_10000_def)
  have c: "client_get expired_redis (toRedisKey demo_scope ''other'') = None"
    by (simp add: expired_redis_eq demo_scope_def redis_eval)
  have d: "client_get expired_redis (toRedisKey demo_scope ''k'') = Some ?e
           \<and> isExpired (env_expiresAt ?e) 5000"
    by (simp add: expired_redis_eq demo_scope_def redis_eval)
  have f: "commits_first []"
    by (simp add: commits_first_def)
  have g: "filter (\<lambda>r. \<not> pk_eq r demo_scope ''k'') expired_db = []"
    by (simp add: expired_db_eq demo_scope_def pk_eq_def in_scope_def)
  have h: "client_del expired_redis (toRedisKey demo_scope ''k'') = []"
    by (simp add: expired_redis_eq demo_scope_def redis_eval)
  from delete_of_absent_or_expired
         [of expired_db demo_scope "''other''" 5000 "Some 1" 1 expired_redis "[]"]
       delete_of_absent_or_expired
         [of expired_db demo_scope "''k''" 5000 "Some 1" 1 expired_redis "[]"]
       a b c d f g h
  show ?thesis by metis
qed

text \<open>The claim as it was stated fails: an expired row and a matching \<^verbatim>\<open>ifMatchVersion\<close>.\<close>

theorem delete_expired_with_ifMatch_raises:
  "fst (sqlite_delete expired_db demo_scope ''k'' (Some 1) 5000) = Inl PreconditionFailedError"
  by (simp add: expired_db_eq demo_scope_def sqlite_eval)


section \<open>Rows and primary keys\<close>

lemma pk_eq_iff: "pk_eq r scope k \<longleftrightarrow> pk_of r = (tenantId scope, namespace scope, userId scope, k)"
  by (auto simp: pk_eq_def in_scope_def pk_of_def)

lemma iso_less_iff: "iso_less a b \<longleftrightarrow> \<not> iso_le b a"
  by (auto simp: iso_less_def iso_le_def)

lemma notExpired_iff: "notExpiredClause r now \<longleftrightarrow> \<not> isExpired (row_expiresAt r) now"
  by (simp add: notExpiredClause_def isExpired_def iso_less_iff split: option.splits)

lemma filter_key_distinct:
  "distinct (map f xs) \<Longrightarrow> filter (\<lambda>r. f r = x) xs = [] \<or> (\<exists>r. filter (\<lambda>r. f r = x) xs = [r])"
proof (induction xs)
  case Nil
  then show ?case by simp
next
  case (Cons a xs)
  show ?case
  proof (cases "f a = x")
    case True
    with Cons.prems have "x \<notin> f ` set xs" by simp
    then have "\<forall>r \<in> set xs. f r \<noteq> x" by blast
    then have "filter (\<lambda>r. f r = x) xs = []" by (simp add: filter_empty_conv)
    with True show ?thesis by simp
  next
    case False
    with Cons show ?thesis by simp
  qed
qed

lemma getRow_active:
  assumes "pk_unique db"
  shows "getRow db scope k True now = activeRow (getRow db scope k False now) now"
proof -
  let ?pk = "\<lambda>r. pk_eq r scope k" and ?ne = "\<lambda>r. notExpiredClause r now"
  have f: "filter (\<lambda>r. ?pk r \<and> ?ne r) db = filter ?ne (filter ?pk db)"
    by simp
  have t: "getRow db scope k True now = (case filter ?ne (filter ?pk db) of [] \<Rightarrow> None | r # _ \<Rightarrow> Some r)"
    unfolding getRow_def if_True f ..
  have u: "getRow db scope k False now = (case filter ?pk db of [] \<Rightarrow> None | r # _ \<Rightarrow> Some r)"
    by (simp add: getRow_def)
  from assms filter_key_distinct [of pk_of db "(tenantId scope, namespace scope, userId scope, k)"]
  consider "filter ?pk db = []" | r where "filter ?pk db = [r]"
    unfolding pk_unique_def pk_eq_iff by blast
  then show ?thesis
  proof cases
    case 1
    show ?thesis unfolding t u 1 by (simp add: activeRow_def)
  next
    case 2
    show ?thesis unfolding t u 2 by (simp add: activeRow_def notExpired_iff)
  qed
qed

lemma sqlite_get_active:
  "pk_unique db \<Longrightarrow>
   fst (sqlite_get db scope k now) =
     Inr (map_option toStoredItem (activeRow (getRow db scope k False now) now))"
  by (simp add: sqlite_get_def getRow_active split: option.splits)

lemma getRow_first_active:
  "getRow db scope k False now = Some r \<Longrightarrow> notExpiredClause r now \<Longrightarrow>
   getRow db scope k True now = Some r"
proof (induction db)
  case Nil
  then show ?case by (simp add: getRow_def)
next
  case (Cons a db)
  then show ?case by (cases "pk_eq a scope k") (auto simp: getRow_def)
qed

lemma getRow_upsert:
  assumes "pk_of new = (tenantId scope, namespace scope, userId scope, k)"
  shows "\<exists>r. getRow (insertOnConflictDoUpdate db new) scope k False now = Some r \<and>
             row_key r = k \<and> row_valueJson r = row_valueJson new \<and> row_version r = row_version new \<and>
             row_expiresAt r = row_expiresAt new \<and> row_updatedAt r = row_updatedAt new"
proof (cases "\<exists>r \<in> set db. pk_of r = pk_of new")
  case False
  then have "filter (\<lambda>r. pk_eq r scope k) db = []"
    using assms by (auto simp: pk_eq_iff filter_empty_conv)
  moreover have "pk_eq new scope k" "row_key new = k" using assms by (simp_all add: pk_eq_iff, simp add: pk_of_def)
  ultimately show ?thesis
    using False by (simp add: insertOnConflictDoUpdate_def getRow_def)
next
  case True
  let ?upd = "\<lambda>r. if pk_of r = pk_of new
                     then r\<lparr>row_valueJson := row_valueJson new, row_version := row_version new,
                            row_expiresAt := row_expiresAt new, row_updatedAt := row_updatedAt new\<rparr>
                     else r"
  have pk: "pk_of (?upd r) = pk_of r" for r by (simp add: pk_of_def)
  have "filter (\<lambda>r. pk_eq r scope k) (map ?upd db) = map ?upd (filter (\<lambda>r. pk_eq r scope k) db)"
    unfolding filter_map pk_eq_iff o_def pk by simp
  moreover from True obtain a rest where "filter (\<lambda>r. pk_eq r scope k) db = a # rest"
    using assms by (cases "filter (\<lambda>r. pk_eq r scope k) db") (auto simp: pk_eq_iff filter_empty_conv)
  moreover from this have "pk_eq a scope k"
    by (metis (mono_tags, lifting) filter_eq_ConsD)
  ultimately show ?thesis
    using True assms by (simp add: insertOnConflictDoUpdate_def getRow_def pk_eq_iff, simp add: pk_of_def)
qed

lemma pk_unique_upsert: "pk_unique db \<Longrightarrow> pk_unique (insertOnConflictDoUpdate db new)"
proof (cases "\<exists>r \<in> set db. pk_of r = pk_of new")
  case True
  assume "pk_unique db"
  moreover have "map pk_of (insertOnConflictDoUpdate db new) = map pk_of db"
    using True by (simp add: insertOnConflictDoUpdate_def pk_of_def o_def)
  ultimately show ?thesis by (simp add: pk_unique_def)
next
  case False
  assume "pk_unique db"
  with False show ?thesis by (auto simp: insertOnConflictDoUpdate_def pk_unique_def)
qed

lemma pk_unique_put: "pk_unique db \<Longrightarrow> pk_unique (snd (sqlite_put db scope k v ttl m now))"
  by (simp add: sqlite_put_def Let_def pk_unique_upsert split: sum.splits)

lemma pk_unique_delete: "pk_unique db \<Longrightarrow> pk_unique (snd (sqlite_delete db scope k m now))"
  by (auto simp: sqlite_delete_def pk_unique_def distinct_map_filter split: option.splits)

section \<open>Cursors decode to the key they encode\<close>
















section \<open>Pages and cursors of list\<close>
































section \<open>Empty keys at the service\<close>






















end
